theory Spec2Isabelle
  imports Main
begin

section \<open>Status values and results\<close>

text \<open>
  The error codes of \<open>absl::Status\<close>. An OK status carries no code here: a
  \<open>StatusOr<T>\<close> is the sum \<open>Status + T\<close>, whose \<open>Inl\<close> branch is a non-OK
  status and whose \<open>Inr\<close> branch is the value, and a plain \<open>Status\<close> result is
  \<open>Status + unit\<close>.
\<close>

datatype StatusCode =
    kCancelled | kUnknown | kInvalidArgument | kDeadlineExceeded | kNotFound
  | kAlreadyExists | kPermissionDenied | kResourceExhausted | kFailedPrecondition
  | kAborted | kOutOfRange | kUnimplemented | kInternal | kUnavailable | kDataLoss
  | kUnauthenticated

record Status =
  code :: StatusCode
  message :: string
  payloads :: "(string \<times> string) list"

definition GetPayload :: "Status \<Rightarrow> string \<Rightarrow> string option" where
  "GetPayload st type_url = map_of (payloads st) type_url"

text \<open>
  Modelled from the spec: the payload tag \<open>kUncompilableFusion\<close> is declared in a header
  that is not part of the sources at hand; the specification calls it the specifically
  tagged "uncompilable configuration" condition. No theorem below depends on its value.
\<close>

definition kUncompilableFusion :: string where
  "kUncompilableFusion = ''uncompilable_fusion''"

text \<open>
  Modelled from the spec: \<open>TF_RET_CHECK\<close> (status\_macros.h, not part of the sources at hand)
  returns a fatal status from the enclosing function when its condition is false.
\<close>

definition RET_CHECK_failure :: "string \<Rightarrow> Status" where
  "RET_CHECK_failure condition =
     \<lparr>code = kInternal, message = ''RET_CHECK failure '' @ condition, payloads = []\<rparr>"

text \<open>
  A \<open>CHECK\<close> that fails and a \<open>vector::at\<close> out of range do not return a status: they end
  the call abnormally.
\<close>

datatype fatal = CHECK_failed | out_of_range

datatype failure = Aborted fatal | Failed Status

section \<open>Data model\<close>

type_synonym Shape = string
type_synonym Duration = int
type_synonym GpuTimer = nat

record DebugOptions =
  xla_dump_to :: string
  xla_gpu_dump_autotune_results_to :: string
  xla_gpu_load_autotune_results_from :: string
  xla_gpu_dump_llvmir :: bool
  xla_gpu_force_compilation_parallelism :: int
  xla_gpu_enable_xla_runtime_executable :: bool
  other_options :: "(string \<times> string) list"

record HloModuleConfig =
  debug_options :: DebugOptions

record HloModule =
  config :: HloModuleConfig
  hlo :: string

record HloComputation =
  parent :: HloModule

record HloInstruction =
  shape :: Shape

record Executable =
  parameter_instructions :: "HloInstruction list"
  binary :: string

record DeviceMemoryBase =
  opaque :: nat
  size_bytes :: nat

record ExecutionInput =
  input_shape :: Shape
  unowned_buffer :: DeviceMemoryBase

record ScopedShapedBuffer =
  root_buffer :: DeviceMemoryBase

record ExecutionOutput =
  ConsumeResult :: ScopedShapedBuffer

record ServiceExecutableRunOptions =
  run_device_ordinal :: int
  requires_exclusive_lock_on_gpu :: bool

subsection \<open>The identity key\<close>

text \<open>
  \<open>CompilationKey\<close> pairs the cache fingerprint \<open>AutotuneCacheKey\<close> (type \<open>'f\<close>) with the
  candidate descriptor \<open>AutotuneResult\<close> (type \<open>'r\<close>). Both are opaque to this code; the
  descriptor is only ever serialized, so \<open>SerializeAsString\<close> is a parameter.
\<close>

record ('f, 'r) CompilationKey =
  autotune_key :: 'f
  res :: 'r

text \<open>\<open>operator==\<close> of \<open>CompilationKey\<close>.\<close>

definition CompilationKey_eq ::
  "('r \<Rightarrow> string) \<Rightarrow> ('f, 'r) CompilationKey \<Rightarrow> ('f, 'r) CompilationKey \<Rightarrow> bool" where
  "CompilationKey_eq SerializeAsString this k =
     (SerializeAsString (res this) = SerializeAsString (res k) \<and>
      autotune_key this = autotune_key k)"

text \<open>
  \<open>AbslHashValue\<close>: \<open>H::combine(h, a, b)\<close> feeds \<open>a\<close> and then \<open>b\<close> into the hash state
  \<open>h\<close>. The two feeding steps belong to the hashing framework and are parameters.
\<close>

definition AbslHashValue ::
  "('h \<Rightarrow> 'f \<Rightarrow> 'h) \<Rightarrow> ('h \<Rightarrow> string \<Rightarrow> 'h) \<Rightarrow> ('r \<Rightarrow> string) \<Rightarrow>
   'h \<Rightarrow> ('f, 'r) CompilationKey \<Rightarrow> 'h" where
  "AbslHashValue combine_key combine_bytes SerializeAsString h k =
     combine_bytes (combine_key h (autotune_key k)) (SerializeAsString (res k))"

subsection \<open>Binding inputs\<close>

text \<open>
  The loop of \<open>ExecutionInputsFromBuffers\<close>, started at \<open>i = 0\<close> with no inputs. Both
  \<open>params.at(i)\<close> and \<open>buffers.at(i)\<close> are checked reads. The counter is a natural
  number: the source counts in an \<open>int\<close>, which agrees for every parameter list shorter
  than \<open>2 ^ 31\<close>.
\<close>

function ExecutionInputs_loop ::
  "HloInstruction list \<Rightarrow> DeviceMemoryBase list \<Rightarrow> nat \<Rightarrow> ExecutionInput list \<Rightarrow>
   fatal + ExecutionInput list" where
  "ExecutionInputs_loop params buffers i inputs =
     (if i < length params then
        (if i < length buffers then
           ExecutionInputs_loop params buffers (i + 1)
             (inputs @ [\<lparr>input_shape = shape (params ! i), unowned_buffer = buffers ! i\<rparr>])
         else Inl out_of_range)
      else Inr inputs)"
  by pat_completeness auto
termination
  by (relation "measure (\<lambda>(params, buffers, i, inputs). length params - i)") auto

definition ExecutionInputsFromBuffers ::
  "Executable \<Rightarrow> DeviceMemoryBase list \<Rightarrow> fatal + ExecutionInput list" where
  "ExecutionInputsFromBuffers executable buffers =
     (let params = parameter_instructions executable in
      if length params \<noteq> length buffers then Inl CHECK_failed
      else ExecutionInputs_loop params buffers 0 [])"

subsection \<open>The compilation cache\<close>

text \<open>
  \<open>executable_cache\<close> is a \<open>node_hash_map\<close> from \<open>CompilationKey\<close> to an owned executable,
  where a null \<open>unique_ptr\<close> is the value \<open>None\<close>. The entries are kept in a list and
  probed with the key's own \<open>operator==\<close>.
\<close>

type_synonym ('f, 'r) cache = "(('f, 'r) CompilationKey \<times> Executable option) list"

fun cache_find ::
  "('r \<Rightarrow> string) \<Rightarrow> ('f, 'r) cache \<Rightarrow> ('f, 'r) CompilationKey \<Rightarrow> Executable option option" where
  "cache_find ser [] key = None"
| "cache_find ser ((k, v) # entries) key =
     (if CompilationKey_eq ser k key then Some v else cache_find ser entries key)"

text \<open>
  \<open>emplace\<close> inserts only when no equal key is present; it returns the mapped value of
  the entry that is in the map afterwards and whether an insertion took place.
\<close>

definition cache_emplace ::
  "('r \<Rightarrow> string) \<Rightarrow> ('f, 'r) cache \<Rightarrow> ('f, 'r) CompilationKey \<Rightarrow> Executable option \<Rightarrow>
   (Executable option \<times> bool) \<times> ('f, 'r) cache" where
  "cache_emplace ser entries key v =
     (case cache_find ser entries key of
        Some existing \<Rightarrow> ((existing, False), entries)
      | None \<Rightarrow> ((v, True), entries @ [(key, v)]))"

subsection \<open>State and collaborators\<close>

text \<open>
  The calls this code makes on its collaborators (the rewrite callback, the backend
  compiler, the executable, the stream and the device timer) are recorded, with their
  arguments, in the order they are made.
\<close>

datatype event =
    EvExtractModule
  | EvRunBackend HloModule
  | EvExecute ServiceExecutableRunOptions Executable "ExecutionInput list"
  | EvBlockHostUntilDone
  | EvGpuTimerCreate
  | EvGetElapsedDuration GpuTimer
  | EvThenMemcpy DeviceMemoryBase DeviceMemoryBase nat

text \<open>
  The state: the process-wide cache, the record of calls made so far, and the state
  \<open>'x\<close> of everything outside this code (device, backend), which only the collaborators
  read and change.
\<close>

record ('f, 'r, 'x) state =
  executable_cache :: "('f, 'r) cache"
  trace :: "event list"
  world :: 'x

type_synonym 'x ExtractModuleFn = "'x \<Rightarrow> (Status + HloModule) \<times> 'x"

record 'x collaborators =
  compiler_RunBackend :: "HloModule \<Rightarrow> 'x \<Rightarrow> (Status + Executable) \<times> 'x"
  device_ordinal :: int
  ExecuteAsyncOnStreamWrapper ::
    "ServiceExecutableRunOptions \<Rightarrow> Executable \<Rightarrow> ExecutionInput list \<Rightarrow> 'x \<Rightarrow>
     (Status + ExecutionOutput) \<times> 'x"
  BlockHostUntilDone :: "'x \<Rightarrow> (Status + unit) \<times> 'x"
  GpuTimer_Create :: "'x \<Rightarrow> (Status + GpuTimer) \<times> 'x"
  GetElapsedDuration :: "GpuTimer \<Rightarrow> 'x \<Rightarrow> (Status + Duration) \<times> 'x"
  ThenMemcpy :: "DeviceMemoryBase \<Rightarrow> DeviceMemoryBase \<Rightarrow> nat \<Rightarrow> 'x \<Rightarrow> 'x"

text \<open>A call on a collaborator: run it on the outside state and record the call.\<close>

definition call ::
  "event \<Rightarrow> ('x \<Rightarrow> 'a \<times> 'x) \<Rightarrow> ('f, 'r, 'x) state \<Rightarrow> 'a \<times> ('f, 'r, 'x) state" where
  "call ev f s =
     (case f (world s) of (r, w) \<Rightarrow> (r, s\<lparr>trace := trace s @ [ev], world := w\<rparr>))"

subsection \<open>Backend invocation\<close>

text \<open>The option overrides of \<open>RunBackend\<close>, in the order the setters are called.\<close>

definition RunBackend_options :: "HloComputation \<Rightarrow> DebugOptions" where
  "RunBackend_options original_computation =
     (let options = debug_options (config (parent original_computation));
          options = options\<lparr>xla_dump_to := ''''\<rparr>;
          options = options\<lparr>xla_gpu_dump_autotune_results_to := ''''\<rparr>;
          options = options\<lparr>xla_gpu_load_autotune_results_from := ''''\<rparr>;
          options = options\<lparr>xla_gpu_dump_llvmir := False\<rparr>;
          options = options\<lparr>xla_gpu_force_compilation_parallelism := 1\<rparr>;
          options = options\<lparr>xla_gpu_enable_xla_runtime_executable := False\<rparr>
      in options)"

definition set_debug_options :: "DebugOptions \<Rightarrow> HloModule \<Rightarrow> HloModule" where
  "set_debug_options options module = module\<lparr>config := (config module)\<lparr>debug_options := options\<rparr>\<rparr>"

text \<open>
  The backend compiler returns an executable or a status, and the rewrite callback a
  module or a status: neither hands back a null pointer with an OK status. A status of
  the backend whose code is \<open>kResourceExhausted\<close> becomes the null executable.
\<close>

definition RunBackend ::
  "'x collaborators \<Rightarrow> HloComputation \<Rightarrow> HloModule \<Rightarrow> ('f, 'r, 'x) state \<Rightarrow>
   (Status + Executable option) \<times> ('f, 'r, 'x) state" where
  "RunBackend env original_computation module s =
     (let module = set_debug_options (RunBackend_options original_computation) module in
      case call (EvRunBackend module) (compiler_RunBackend env module) s of
        (Inl st, s1) \<Rightarrow>
          if code st = kResourceExhausted then (Inr None, s1) else (Inl st, s1)
      | (Inr executable, s1) \<Rightarrow> (Inr (Some executable), s1))"

definition CompileNoCache ::
  "'x collaborators \<Rightarrow> HloComputation \<Rightarrow> 'x ExtractModuleFn \<Rightarrow> ('f, 'r, 'x) state \<Rightarrow>
   (Status + Executable option) \<times> ('f, 'r, 'x) state" where
  "CompileNoCache env original_computation module_extractor s =
     (case call EvExtractModule module_extractor s of
        (Inl st, s1) \<Rightarrow>
          if GetPayload st kUncompilableFusion \<noteq> None then (Inr None, s1) else (Inl st, s1)
      | (Inr new_hlo_module, s1) \<Rightarrow> RunBackend env original_computation new_hlo_module s1)"

subsection \<open>Compile through the cache\<close>

text \<open>
  \<open>Compile\<close> probes the cache under the lock, compiles outside it, and publishes under
  the lock again. The three phases run here one after the other, as they do for a
  caller that no other thread interleaves with.
\<close>

definition Compile ::
  "('r \<Rightarrow> string) \<Rightarrow> 'x collaborators \<Rightarrow> HloComputation \<Rightarrow> 'r \<Rightarrow> 'f \<Rightarrow> 'x ExtractModuleFn \<Rightarrow>
   ('f, 'r, 'x) state \<Rightarrow> (Status + Executable option) \<times> ('f, 'r, 'x) state" where
  "Compile ser env hlo_computation candidate cache_key extractor s =
     (let key = \<lparr>autotune_key = cache_key, res = candidate\<rparr> in
      case cache_find ser (executable_cache s) key of
        Some cached \<Rightarrow> (Inr cached, s)
      | None \<Rightarrow>
          (case CompileNoCache env hlo_computation extractor s of
             (Inl st, s1) \<Rightarrow> (Inl st, s1)
           | (Inr executable, s1) \<Rightarrow>
               (case cache_emplace ser (executable_cache s1) key executable of
                  ((published, inserted), entries) \<Rightarrow>
                    (Inr published, s1\<lparr>executable_cache := entries\<rparr>))))"

definition ClearCompilationCache :: "('f, 'r, 'x) state \<Rightarrow> ('f, 'r, 'x) state" where
  "ClearCompilationCache s = s\<lparr>executable_cache := []\<rparr>"

subsection \<open>Execution and profiling\<close>

text \<open>
  \<open>Execute\<close> sets the exclusive-lock flag and the device ordinal in the run options
  and calls the executable; the stream and the allocator it also passes are part of the
  outside state.
\<close>

definition Execute ::
  "'x collaborators \<Rightarrow> Executable \<Rightarrow> ExecutionInput list \<Rightarrow> ('f, 'r, 'x) state \<Rightarrow>
   (Status + ExecutionOutput) \<times> ('f, 'r, 'x) state" where
  "Execute env executable arguments s =
     (let service_run_options =
            \<lparr>run_device_ordinal = device_ordinal env, requires_exclusive_lock_on_gpu = True\<rparr>
      in call (EvExecute service_run_options executable arguments)
           (ExecuteAsyncOnStreamWrapper env service_run_options executable arguments) s)"

text \<open>
  \<open>ThenMemcpy\<close> enqueues the copy on the stream and returns no status.
\<close>

definition Memcpy ::
  "'x collaborators \<Rightarrow> DeviceMemoryBase \<Rightarrow> DeviceMemoryBase \<Rightarrow> nat \<Rightarrow> ('f, 'r, 'x) state \<Rightarrow>
   ('f, 'r, 'x) state" where
  "Memcpy env dst src n s =
     s\<lparr>trace := trace s @ [EvThenMemcpy dst src n], world := ThenMemcpy env dst src n (world s)\<rparr>"

text \<open>
  \<open>GenerateAndProfileExecutable\<close>, statement by statement; every
  \<open>TF_ASSIGN_OR_RETURN\<close> and \<open>TF_RETURN_IF_ERROR\<close> is a case split that returns the
  status. The stream passed by the caller is the device stream whose operations are the
  collaborators \<open>BlockHostUntilDone\<close>, \<open>GpuTimer_Create\<close> and \<open>ThenMemcpy\<close>.
\<close>

definition GenerateAndProfileExecutable ::
  "('r \<Rightarrow> string) \<Rightarrow> 'x collaborators \<Rightarrow> HloComputation \<Rightarrow> 'r \<Rightarrow> 'f \<Rightarrow>
   DeviceMemoryBase list \<Rightarrow> DeviceMemoryBase \<Rightarrow> 'x ExtractModuleFn \<Rightarrow> ('f, 'r, 'x) state \<Rightarrow>
   (failure + Duration option) \<times> ('f, 'r, 'x) state" where
  "GenerateAndProfileExecutable ser env hlo_computation candidate cache_key
       input_buffers output_buffer extractor s =
     (case Compile ser env hlo_computation candidate cache_key extractor s of
        (Inl st, s1) \<Rightarrow> (Inl (Failed st), s1)
      | (Inr None, s1) \<Rightarrow> (Inr None, s1)
      | (Inr (Some executable), s1) \<Rightarrow>
     (case ExecutionInputsFromBuffers executable input_buffers of
        Inl f \<Rightarrow> (Inl (Aborted f), s1)
      | Inr warmup_inputs \<Rightarrow>
     (case Execute env executable warmup_inputs s1 of
        (Inl st, s2) \<Rightarrow> (Inl (Failed st), s2)
      | (Inr warmup_output, s2) \<Rightarrow>
     (case call EvBlockHostUntilDone (BlockHostUntilDone env) s2 of
        (Inl st, s3) \<Rightarrow> (Inl (Failed st), s3)
      | (Inr u, s3) \<Rightarrow>
     (case ExecutionInputsFromBuffers executable input_buffers of
        Inl f \<Rightarrow> (Inl (Aborted f), s3)
      | Inr execution_inputs \<Rightarrow>
     (case call EvGpuTimerCreate (GpuTimer_Create env) s3 of
        (Inl st, s4) \<Rightarrow> (Inl (Failed st), s4)
      | (Inr timer, s4) \<Rightarrow>
     (case Execute env executable execution_inputs s4 of
        (Inl st, s5) \<Rightarrow> (Inl (Failed st), s5)
      | (Inr execution_output, s5) \<Rightarrow>
     (case call (EvGetElapsedDuration timer) (GetElapsedDuration env timer) s5 of
        (Inl st, s6) \<Rightarrow> (Inl (Failed st), s6)
      | (Inr timer_duration, s6) \<Rightarrow>
          (let result = ConsumeResult execution_output in
           if size_bytes output_buffer \<noteq> size_bytes (root_buffer result) then
             (Inl (Failed (RET_CHECK_failure
                ''output_buffer.size() == result.root_buffer().size()'')), s6)
           else
             (Inr (Some timer_duration),
              Memcpy env output_buffer (root_buffer result)
                (size_bytes (root_buffer result)) s6))))))))))"

subsection \<open>Reading the record of calls\<close>

text \<open>
  Every run of \<open>CompileNoCache\<close> starts with exactly one call of the rewrite callback, so
  the number of such calls is the number of times compilation was invoked.
\<close>

definition compile_calls :: "event list \<Rightarrow> nat" where
  "compile_calls tr = length (filter (\<lambda>ev. ev = EvExtractModule) tr)"

fun is_compile_event :: "event \<Rightarrow> bool" where
  "is_compile_event EvExtractModule = True"
| "is_compile_event (EvRunBackend m) = True"
| "is_compile_event ev = False"

fun is_memcpy :: "event \<Rightarrow> bool" where
  "is_memcpy (EvThenMemcpy dst src n) = True"
| "is_memcpy ev = False"


subsection \<open>An instrumented backend\<close>

text \<open>
  Concrete collaborators on which the theorems below are instantiated. The outside
  state is a clock that every call advances. The backend rejects the module \<open>''big''\<close>
  for lack of resources and fails on \<open>''broken''\<close>; every executable it builds takes one
  4-byte parameter and, when run, yields a 4-byte output buffer.
\<close>

definition demo_options :: DebugOptions where
  "demo_options =
     \<lparr>xla_dump_to = ''/tmp/dump'', xla_gpu_dump_autotune_results_to = ''out.pb'',
      xla_gpu_load_autotune_results_from = ''in.pb'', xla_gpu_dump_llvmir = True,
      xla_gpu_force_compilation_parallelism = 8,
      xla_gpu_enable_xla_runtime_executable = True,
      other_options = [(''xla_gpu_autotune_level'', ''4'')]\<rparr>"

definition demo_module :: "string \<Rightarrow> HloModule" where
  "demo_module text = \<lparr>config = \<lparr>debug_options = demo_options\<rparr>, hlo = text\<rparr>"

definition demo_computation :: HloComputation where
  "demo_computation = \<lparr>parent = demo_module ''fusion''\<rparr>"

definition demo_status :: "StatusCode \<Rightarrow> (string \<times> string) list \<Rightarrow> Status" where
  "demo_status c ps = \<lparr>code = c, message = ''failed'', payloads = ps\<rparr>"

definition demo_executable :: "string \<Rightarrow> Executable" where
  "demo_executable text = \<lparr>parameter_instructions = [\<lparr>shape = ''u8[4]''\<rparr>], binary = text\<rparr>"

definition demo_backend :: "HloModule \<Rightarrow> nat \<Rightarrow> (Status + Executable) \<times> nat" where
  "demo_backend m w =
     (if hlo m = ''big'' then (Inl (demo_status kResourceExhausted []), w + 1)
      else if hlo m = ''broken'' then (Inl (demo_status kInternal []), w + 1)
      else (Inr (demo_executable (hlo m)), w + 1))"

definition demo_env :: "nat collaborators" where
  "demo_env =
     \<lparr>compiler_RunBackend = demo_backend,
      device_ordinal = 0,
      ExecuteAsyncOnStreamWrapper = (\<lambda>opts exe args w.
        (Inr \<lparr>ConsumeResult = \<lparr>root_buffer = \<lparr>opaque = 4096, size_bytes = 4\<rparr>\<rparr>\<rparr>, w + 1)),
      BlockHostUntilDone = (\<lambda>w. (Inr (), w + 1)),
      GpuTimer_Create = (\<lambda>w. (Inr w, w + 1)),
      GetElapsedDuration = (\<lambda>t w. (Inr (int (w - t)), w + 1)),
      ThenMemcpy = (\<lambda>dst src n w. w + 1)\<rparr>"

definition demo_extractor :: "string \<Rightarrow> nat ExtractModuleFn" where
  "demo_extractor text w = (Inr (demo_module text), w + 1)"

definition failing_extractor :: "Status \<Rightarrow> nat ExtractModuleFn" where
  "failing_extractor st w = (Inl st, w + 1)"

definition demo_state :: "(nat, string, nat) state" where
  "demo_state = \<lparr>executable_cache = [], trace = [], world = 0\<rparr>"

section \<open>Unfolding the model\<close>

text \<open>The defining equations, collected for evaluating concrete runs.\<close>

lemmas demo_defs = demo_env_def demo_state_def demo_extractor_def failing_extractor_def
  demo_backend_def demo_module_def demo_executable_def demo_status_def demo_computation_def
  demo_options_def

lemmas model_defs = Compile_def CompileNoCache_def RunBackend_def call_def cache_emplace_def
  Execute_def ExecutionInputsFromBuffers_def Memcpy_def set_debug_options_def
  RunBackend_options_def CompilationKey_eq_def GetPayload_def compile_calls_def

lemmas profile_defs = GenerateAndProfileExecutable_def ExecutionInputs_loop.simps

section \<open>The identity key: equality and hashing\<close>

text \<open>
  C1. Two keys are equal exactly when their fingerprints are equal and their candidate
  descriptors serialize to the same bytes, and equal keys have equal hash values, for
  every hash state and every way the framework feeds a value into it. The hash value is
  the hash state after the fingerprint and then the serialized descriptor have been fed
  into it, and it depends on nothing else: when the framework's feeding steps lose no
  information, two keys with equal hash values are equal.
\<close>

theorem CompilationKey_identity:
  "(CompilationKey_eq ser \<lparr>autotune_key = f1, res = a\<rparr> \<lparr>autotune_key = f2, res = b\<rparr>
      \<longleftrightarrow> f1 = f2 \<and> ser a = ser b) \<and>
   (CompilationKey_eq ser k1 k2 \<longrightarrow>
      AbslHashValue combine_key combine_bytes ser h k1 =
      AbslHashValue combine_key combine_bytes ser h k2) \<and>
   AbslHashValue combine_key combine_bytes ser h \<lparr>autotune_key = f1, res = a\<rparr> =
      combine_bytes (combine_key h f1) (ser a) \<and>
   (inj (combine_key h) \<and>
    (\<forall>x y s t. combine_bytes x s = combine_bytes y t \<longrightarrow> x = y \<and> s = t) \<and>
    AbslHashValue combine_key combine_bytes ser h k1 =
      AbslHashValue combine_key combine_bytes ser h k2 \<longrightarrow>
      CompilationKey_eq ser k1 k2)"
proof (intro conjI impI)
  show "CompilationKey_eq ser \<lparr>autotune_key = f1, res = a\<rparr> \<lparr>autotune_key = f2, res = b\<rparr>
      \<longleftrightarrow> f1 = f2 \<and> ser a = ser b"
    by (auto simp: CompilationKey_eq_def)
next
  assume "CompilationKey_eq ser k1 k2"
  then show "AbslHashValue combine_key combine_bytes ser h k1 =
      AbslHashValue combine_key combine_bytes ser h k2"
    by (simp add: CompilationKey_eq_def AbslHashValue_def)
next
  show "AbslHashValue combine_key combine_bytes ser h \<lparr>autotune_key = f1, res = a\<rparr> =
      combine_bytes (combine_key h f1) (ser a)"
    by (simp add: AbslHashValue_def)
next
  assume h: "inj (combine_key h) \<and>
    (\<forall>x y s t. combine_bytes x s = combine_bytes y t \<longrightarrow> x = y \<and> s = t) \<and>
    AbslHashValue combine_key combine_bytes ser h k1 =
      AbslHashValue combine_key combine_bytes ser h k2"
  then have "combine_key h (autotune_key k1) = combine_key h (autotune_key k2)"
    and s: "ser (res k1) = ser (res k2)"
    unfolding AbslHashValue_def by blast+
  with h have "autotune_key k1 = autotune_key k2" by (simp add: inj_eq)
  with s show "CompilationKey_eq ser k1 k2" by (simp add: CompilationKey_eq_def)
qed

theorem CompilationKey_identity_witness:
  "CompilationKey_eq (take 2) \<lparr>autotune_key = (7::nat), res = ''abc''\<rparr>
       \<lparr>autotune_key = 7, res = ''abd''\<rparr> \<and>
   AbslHashValue (\<lambda>h f. Inl f # h) (\<lambda>h s. Inr s # h) (take 2) []
       \<lparr>autotune_key = (7::nat), res = ''abc''\<rparr> =
   AbslHashValue (\<lambda>h f. Inl f # h) (\<lambda>h s. Inr s # h) (take 2) []
       \<lparr>autotune_key = 7, res = ''abd''\<rparr> \<and>
   AbslHashValue (\<lambda>h f. Inl f # h) (\<lambda>h s. Inr s # h) (take 2) []
       \<lparr>autotune_key = (7::nat), res = ''abc''\<rparr> = [Inr ''ab'', Inl 7]"
proof -
  let ?ck = "\<lambda>(h :: (nat + string) list) (f :: nat). Inl f # h"
  let ?cb = "\<lambda>(h :: (nat + string) list) (s :: string). Inr s # h"
  let ?k1 = "\<lparr>autotune_key = (7::nat), res = ''abc''\<rparr>"
  let ?k2 = "\<lparr>autotune_key = (7::nat), res = ''abd''\<rparr>"
  note th = CompilationKey_identity
    [of "take 2" "7::nat" "''abc''" 7 "''abd''" ?k1 ?k2 ?ck ?cb "[]"]
  have i1: "inj (?ck [])" by (simp add: inj_def)
  have i2: "\<forall>x y s t. ?cb x s = ?cb y t \<longrightarrow> x = y \<and> s = t" by simp
  have sers: "(7::nat) = 7 \<and> take 2 ''abc'' = take 2 ''abd''" by simp
  from th sers have eq: "CompilationKey_eq (take 2) ?k1 ?k2" by blast
  with th have hh: "AbslHashValue ?ck ?cb (take 2) [] ?k1 = AbslHashValue ?ck ?cb (take 2) [] ?k2"
    by blast
  from th i1 i2 hh have eq': "CompilationKey_eq (take 2) ?k1 ?k2" by blast
  from th have v: "AbslHashValue ?ck ?cb (take 2) [] ?k1 = [Inr ''ab'', Inl 7]" by simp
  from eq' hh v show ?thesis by blast
qed

section \<open>Binding inputs\<close>

lemma ExecutionInputs_loop_zip:
  "length params = length buffers \<Longrightarrow> i \<le> length params \<Longrightarrow>
   ExecutionInputs_loop params buffers i inputs =
     Inr (inputs @ map (\<lambda>(p, b). \<lparr>input_shape = shape p, unowned_buffer = b\<rparr>)
                     (drop i (zip params buffers)))"
proof (induction params buffers i inputs rule: ExecutionInputs_loop.induct)
  case (1 params buffers i inputs)
  show ?case
  proof (cases "i < length params")
    case True
    with "1.prems" have ib: "i < length buffers" by simp
    from True ib have d: "drop i (zip params buffers) =
        (params ! i, buffers ! i) # drop (Suc i) (zip params buffers)"
      by (simp add: Cons_nth_drop_Suc [symmetric])
    from True have "i + 1 \<le> length params" by simp
    from "1.IH" [OF True ib "1.prems"(1) this] True ib d
    show ?thesis by (simp del: ExecutionInputs_loop.simps add: ExecutionInputs_loop.simps [of params buffers i])
  next
    case False
    with "1.prems" show ?thesis by simp
  qed
qed

text \<open>
  C9. With as many buffers as declared parameters, binding succeeds and the input at
  every index pairs the shape of the parameter at that index with the buffer at that
  index; with any other number of buffers the arity check fails, which is fatal.
\<close>

theorem ExecutionInputsFromBuffers_binds:
  "(length (parameter_instructions executable) = length buffers \<longrightarrow>
      (\<exists>inputs. ExecutionInputsFromBuffers executable buffers = Inr inputs \<and>
         length inputs = length buffers \<and>
         (\<forall>i < length buffers. inputs ! i =
            \<lparr>input_shape = shape (parameter_instructions executable ! i),
             unowned_buffer = buffers ! i\<rparr>))) \<and>
   (length (parameter_instructions executable) \<noteq> length buffers \<longrightarrow>
      ExecutionInputsFromBuffers executable buffers = Inl CHECK_failed)"
proof (intro conjI impI)
  assume len: "length (parameter_instructions executable) = length buffers"
  let ?inputs = "map (\<lambda>(p, b). \<lparr>input_shape = shape p, unowned_buffer = b\<rparr>)
                     (zip (parameter_instructions executable) buffers)"
  have "ExecutionInputsFromBuffers executable buffers = Inr ?inputs"
    using ExecutionInputs_loop_zip [OF len, of 0 "[]"] len
    by (simp add: ExecutionInputsFromBuffers_def)
  moreover have "length ?inputs = length buffers" using len by simp
  moreover have "\<forall>i < length buffers. ?inputs ! i =
            \<lparr>input_shape = shape (parameter_instructions executable ! i),
             unowned_buffer = buffers ! i\<rparr>"
    using len by simp
  ultimately show "\<exists>inputs. ExecutionInputsFromBuffers executable buffers = Inr inputs \<and>
         length inputs = length buffers \<and>
         (\<forall>i < length buffers. inputs ! i =
            \<lparr>input_shape = shape (parameter_instructions executable ! i),
             unowned_buffer = buffers ! i\<rparr>)"
    by blast
next
  assume "length (parameter_instructions executable) \<noteq> length buffers"
  then show "ExecutionInputsFromBuffers executable buffers = Inl CHECK_failed"
    by (simp add: ExecutionInputsFromBuffers_def)
qed

theorem ExecutionInputsFromBuffers_binds_witness:
  "(\<exists>inputs.
      ExecutionInputsFromBuffers
        \<lparr>parameter_instructions = [\<lparr>shape = ''f32[4]''\<rparr>, \<lparr>shape = ''s8[2]''\<rparr>], binary = ''k''\<rparr>
        [\<lparr>opaque = 64, size_bytes = 16\<rparr>, \<lparr>opaque = 128, size_bytes = 2\<rparr>] = Inr inputs \<and>
      inputs ! 1 = \<lparr>input_shape = ''s8[2]'', unowned_buffer = \<lparr>opaque = 128, size_bytes = 2\<rparr>\<rparr>) \<and>
   ExecutionInputsFromBuffers
     \<lparr>parameter_instructions = [\<lparr>shape = ''f32[4]''\<rparr>, \<lparr>shape = ''s8[2]''\<rparr>], binary = ''k''\<rparr>
     [\<lparr>opaque = 64, size_bytes = 16\<rparr>] = Inl CHECK_failed"
proof -
  let ?exe = "\<lparr>parameter_instructions = [\<lparr>shape = ''f32[4]''\<rparr>, \<lparr>shape = ''s8[2]''\<rparr>],
               binary = ''k''\<rparr>"
  let ?two = "[\<lparr>opaque = 64, size_bytes = 16\<rparr>, \<lparr>opaque = 128, size_bytes = 2\<rparr>]"
  let ?one = "[\<lparr>opaque = 64, size_bytes = (16::nat)\<rparr>]"
  have eq: "length (parameter_instructions ?exe) = length ?two" by simp
  have ne: "length (parameter_instructions ?exe) \<noteq> length ?one" by simp
  from ExecutionInputsFromBuffers_binds [of ?exe ?two] eq
  obtain inputs where i: "ExecutionInputsFromBuffers ?exe ?two = Inr inputs"
    and n: "\<forall>i < length ?two. inputs ! i =
       \<lparr>input_shape = shape (parameter_instructions ?exe ! i), unowned_buffer = ?two ! i\<rparr>"
    by blast
  from n have "inputs ! 1 =
      \<lparr>input_shape = ''s8[2]'', unowned_buffer = \<lparr>opaque = 128, size_bytes = 2\<rparr>\<rparr>"
    by simp
  moreover from ExecutionInputsFromBuffers_binds [of ?exe ?one] ne
  have "ExecutionInputsFromBuffers ?exe ?one = Inl CHECK_failed" by blast
  ultimately show ?thesis using i by blast
qed

section \<open>The compilation cache\<close>

subsection \<open>Effects of the compile path on the state\<close>

lemma call_effect:
  "call ev f s = (r, s') \<Longrightarrow>
   executable_cache s' = executable_cache s \<and> trace s' = trace s @ [ev] \<and>
   (r, world s') = f (world s)"
  by (auto simp: call_def split: prod.splits)

lemma RunBackend_effect:
  "RunBackend env original_computation m s = (r, s') \<Longrightarrow>
   executable_cache s' = executable_cache s \<and>
   trace s' = trace s @
     [EvRunBackend (set_debug_options (RunBackend_options original_computation) m)]"
  by (auto simp: RunBackend_def Let_def split: prod.splits sum.splits if_splits
           dest!: call_effect)

lemma CompileNoCache_effect:
  "CompileNoCache env original_computation extractor s = (r, s') \<Longrightarrow>
   executable_cache s' = executable_cache s \<and>
   (\<exists>evs. trace s' = trace s @ EvExtractModule # evs \<and>
          (evs = [] \<or> (\<exists>m. evs = [EvRunBackend m])))"
  by (auto simp: CompileNoCache_def split: prod.splits sum.splits if_splits
           dest!: call_effect RunBackend_effect)











text \<open>
  C7. When compilation fails with a status on a miss, \<open>Compile\<close> returns that status;
  and whenever \<open>Compile\<close> returns a status, the cache is what it was before the call and
  the key is still absent from it.
\<close>

theorem Compile_failure_keeps_cache:
  "(cache_find ser (executable_cache s) \<lparr>autotune_key = f, res = a\<rparr> = None \<and>
    CompileNoCache env computation extractor s = (Inl st, s1) \<longrightarrow>
      Compile ser env computation a f extractor s = (Inl st, s1)) \<and>
   (Compile ser env computation a f extractor s = (Inl st, s1) \<longrightarrow>
      executable_cache s1 = executable_cache s \<and>
      cache_find ser (executable_cache s1) \<lparr>autotune_key = f, res = a\<rparr> = None)"
  by (auto simp: Compile_def Let_def
      split: option.splits prod.splits sum.splits dest!: CompileNoCache_effect)

theorem Compile_failure_keeps_cache_witness:
  "Compile id demo_env demo_computation ''c1'' (7::nat)
       (failing_extractor (demo_status kInternal [])) demo_state =
     (Inl (demo_status kInternal []),
      \<lparr>executable_cache = [], trace = [EvExtractModule], world = 1\<rparr>) \<and>
   cache_find id (executable_cache \<lparr>executable_cache = [], trace = [EvExtractModule], world = (1::nat)\<rparr>)
      \<lparr>autotune_key = (7::nat), res = ''c1''\<rparr> = None"
proof -
  let ?s1 = "\<lparr>executable_cache = [], trace = [EvExtractModule], world = (1::nat)\<rparr>
               :: (nat, string, nat) state"
  let ?st = "demo_status kInternal []"
  have miss: "cache_find id (executable_cache demo_state)
      \<lparr>autotune_key = (7::nat), res = ''c1''\<rparr> = None"
    by (simp add: demo_state_def)
  have fails: "CompileNoCache demo_env demo_computation (failing_extractor ?st) demo_state =
      (Inl ?st, ?s1)"
    by (simp add: model_defs demo_defs kUncompilableFusion_def)
  from Compile_failure_keeps_cache
    [of id demo_state 7 "''c1''" demo_env demo_computation "failing_extractor ?st" ?st ?s1]
    miss fails
  show ?thesis by simp
qed

section \<open>Backend invocation\<close>

text \<open>
  C3. \<open>CompileNoCache\<close> returns the null executable exactly when the rewrite callback
  fails with a status carrying the \<open>kUncompilableFusion\<close> payload, or the callback
  succeeds and the backend compiler fails with code \<open>kResourceExhausted\<close>. It returns a
  status exactly when the callback fails with that status and no such payload, or the
  backend fails with that status and another code. It returns an executable exactly
  when the backend built it.
\<close>

theorem CompileNoCache_outcomes:
  "(fst (CompileNoCache env original_computation module_extractor s) = Inr None \<longleftrightarrow>
      (\<exists>st w. module_extractor (world s) = (Inl st, w) \<and>
          GetPayload st kUncompilableFusion \<noteq> None) \<or>
      (\<exists>m w st w'. module_extractor (world s) = (Inr m, w) \<and>
          compiler_RunBackend env
            (set_debug_options (RunBackend_options original_computation) m) w = (Inl st, w') \<and>
          code st = kResourceExhausted)) \<and>
   (\<forall>st. fst (CompileNoCache env original_computation module_extractor s) = Inl st \<longleftrightarrow>
      (\<exists>w. module_extractor (world s) = (Inl st, w) \<and>
          GetPayload st kUncompilableFusion = None) \<or>
      (\<exists>m w w'. module_extractor (world s) = (Inr m, w) \<and>
          compiler_RunBackend env
            (set_debug_options (RunBackend_options original_computation) m) w = (Inl st, w') \<and>
          code st \<noteq> kResourceExhausted)) \<and>
   (\<forall>executable. fst (CompileNoCache env original_computation module_extractor s) =
        Inr (Some executable) \<longleftrightarrow>
      (\<exists>m w w'. module_extractor (world s) = (Inr m, w) \<and>
          compiler_RunBackend env
            (set_debug_options (RunBackend_options original_computation) m) w =
              (Inr executable, w')))"
proof (cases "module_extractor (world s)")
  case (Pair x w)
  show ?thesis
  proof (cases x)
    case (Inl st)
    with Pair show ?thesis
      by (auto simp: CompileNoCache_def call_def)
  next
    case (Inr m)
    obtain y w' where b: "compiler_RunBackend env
            (set_debug_options (RunBackend_options original_computation) m) w = (y, w')"
      by (cases "compiler_RunBackend env
            (set_debug_options (RunBackend_options original_computation) m) w") auto
    show ?thesis
    proof (cases y)
      case (Inl st)
      with Pair Inr b show ?thesis
        by (auto simp: CompileNoCache_def RunBackend_def call_def Let_def split: if_splits)
    next
      case (Inr executable)
      with Pair \<open>x = Inr m\<close> b show ?thesis
        by (auto simp: CompileNoCache_def RunBackend_def call_def Let_def split: if_splits)
    qed
  qed
qed

theorem CompileNoCache_outcomes_witness:
  "fst (CompileNoCache demo_env demo_computation
          (failing_extractor (demo_status kInvalidArgument [(kUncompilableFusion, ''split_k'')]))
          demo_state) = Inr None \<and>
   fst (CompileNoCache demo_env demo_computation (demo_extractor ''big'') demo_state) = Inr None \<and>
   fst (CompileNoCache demo_env demo_computation
          (failing_extractor (demo_status kResourceExhausted [])) demo_state) =
     Inl (demo_status kResourceExhausted []) \<and>
   fst (CompileNoCache demo_env demo_computation (demo_extractor ''broken'') demo_state) =
     Inl (demo_status kInternal []) \<and>
   fst (CompileNoCache demo_env demo_computation (demo_extractor ''identity'') demo_state) =
     Inr (Some (demo_executable ''identity''))"
proof -
  let ?tagged = "demo_status kInvalidArgument [(kUncompilableFusion, ''split_k'')]"
  let ?plain = "demo_status kResourceExhausted []"
  have a: "fst (CompileNoCache demo_env demo_computation (failing_extractor ?tagged)
      demo_state) = Inr None"
    using CompileNoCache_outcomes
      [of demo_env demo_computation "failing_extractor ?tagged" demo_state]
    by (simp add: demo_defs GetPayload_def)
  have b: "fst (CompileNoCache demo_env demo_computation (demo_extractor ''big'')
      demo_state) = Inr None"
    using CompileNoCache_outcomes
      [of demo_env demo_computation "demo_extractor ''big''" demo_state]
    by (simp add: demo_defs set_debug_options_def)
  have c: "fst (CompileNoCache demo_env demo_computation (failing_extractor ?plain)
      demo_state) = Inl ?plain"
    using CompileNoCache_outcomes
      [of demo_env demo_computation "failing_extractor ?plain" demo_state]
    by (simp add: demo_defs GetPayload_def)
  have d: "fst (CompileNoCache demo_env demo_computation (demo_extractor ''broken'')
      demo_state) = Inl (demo_status kInternal [])"
    using CompileNoCache_outcomes
      [of demo_env demo_computation "demo_extractor ''broken''" demo_state]
    by (simp add: demo_defs set_debug_options_def)
  have e: "fst (CompileNoCache demo_env demo_computation (demo_extractor ''identity'')
      demo_state) = Inr (Some (demo_executable ''identity''))"
    using CompileNoCache_outcomes
      [of demo_env demo_computation "demo_extractor ''identity''" demo_state]
    by (simp add: demo_defs set_debug_options_def)
  from a b c d e show ?thesis by blast
qed

text \<open>
  C8. \<open>RunBackend\<close> makes one call on the backend compiler, on the module it was given
  with the debug options of the original computation's module in which the dump
  directory, the autotune-result dump and load paths are empty, LLVM-IR dumping and the
  XLA-runtime executable are off, and the compilation parallelism is 1; every other
  option is the original's. The result and the outside state after \<open>RunBackend\<close> are
  those of the backend compiler applied to that module.
\<close>

theorem RunBackend_debug_options:
  "\<exists>m'. trace (snd (RunBackend env original_computation m s)) = trace s @ [EvRunBackend m'] \<and>
     hlo m' = hlo m \<and>
     xla_dump_to (debug_options (config m')) = [] \<and>
     xla_gpu_dump_llvmir (debug_options (config m')) = False \<and>
     xla_gpu_dump_autotune_results_to (debug_options (config m')) = [] \<and>
     xla_gpu_load_autotune_results_from (debug_options (config m')) = [] \<and>
     xla_gpu_force_compilation_parallelism (debug_options (config m')) = 1 \<and>
     xla_gpu_enable_xla_runtime_executable (debug_options (config m')) = False \<and>
     other_options (debug_options (config m')) =
       other_options (debug_options (config (parent original_computation))) \<and>
     world (snd (RunBackend env original_computation m s)) =
       snd (compiler_RunBackend env m' (world s)) \<and>
     fst (RunBackend env original_computation m s) =
       (case fst (compiler_RunBackend env m' (world s)) of
          Inl st \<Rightarrow> if code st = kResourceExhausted then Inr None else Inl st
        | Inr executable \<Rightarrow> Inr (Some executable))"
proof -
  let ?m = "set_debug_options (RunBackend_options original_computation) m"
  obtain r s' where rb: "RunBackend env original_computation m s = (r, s')"
    by (cases "RunBackend env original_computation m s") auto
  from RunBackend_effect [OF rb] rb
  have t: "trace (snd (RunBackend env original_computation m s)) = trace s @ [EvRunBackend ?m]"
    by simp
  have w: "world (snd (RunBackend env original_computation m s)) =
       snd (compiler_RunBackend env ?m (world s))"
    by (auto simp: RunBackend_def call_def Let_def split: prod.splits sum.splits)
  have f: "fst (RunBackend env original_computation m s) =
       (case fst (compiler_RunBackend env ?m (world s)) of
          Inl st \<Rightarrow> if code st = kResourceExhausted then Inr None else Inl st
        | Inr executable \<Rightarrow> Inr (Some executable))"
    by (auto simp: RunBackend_def call_def Let_def split: prod.splits sum.splits)
  from t w f show ?thesis
    by (intro exI [of _ ?m]) (simp add: set_debug_options_def RunBackend_options_def)
qed

theorem RunBackend_debug_options_witness:
  "\<exists>m'. trace (snd (RunBackend demo_env demo_computation (demo_module ''identity'')
            demo_state)) = trace demo_state @ [EvRunBackend m'] \<and>
     hlo m' = ''identity'' \<and>
     xla_dump_to (debug_options (config m')) = [] \<and>
     xla_gpu_dump_llvmir (debug_options (config m')) = False \<and>
     xla_gpu_dump_autotune_results_to (debug_options (config m')) = [] \<and>
     xla_gpu_load_autotune_results_from (debug_options (config m')) = [] \<and>
     xla_gpu_force_compilation_parallelism (debug_options (config m')) = 1 \<and>
     xla_gpu_enable_xla_runtime_executable (debug_options (config m')) = False \<and>
     other_options (debug_options (config m')) = [(''xla_gpu_autotune_level'', ''4'')] \<and>
     world (snd (RunBackend demo_env demo_computation (demo_module ''identity'') demo_state)) =
       snd (compiler_RunBackend demo_env m' (world demo_state)) \<and>
     fst (RunBackend demo_env demo_computation (demo_module ''identity'') demo_state) =
       (case fst (compiler_RunBackend demo_env m' (world demo_state)) of
          Inl st \<Rightarrow> if code st = kResourceExhausted then Inr None else Inl st
        | Inr executable \<Rightarrow> Inr (Some executable))"
proof -
  have h: "hlo (demo_module ''identity'') = ''identity''"
    by (simp add: demo_module_def)
  have o: "other_options (debug_options (config (parent demo_computation))) =
      [(''xla_gpu_autotune_level'', ''4'')]"
    by (simp add: demo_defs)
  from RunBackend_debug_options
    [of demo_env demo_computation "demo_module ''identity''" demo_state]
  show ?thesis unfolding h o .
qed

section \<open>Profiling\<close>

subsection \<open>Calls made by the steps of a measurement\<close>

lemma Compile_effect:
  "Compile ser env computation a f extractor s = (r, s1) \<Longrightarrow>
   \<exists>pre. trace s1 = trace s @ pre \<and> list_all is_compile_event pre"
  by (auto simp: Compile_def Let_def split: option.splits prod.splits sum.splits
           dest!: CompileNoCache_effect)

lemma Execute_effect:
  "Execute env executable arguments s = (r, s') \<Longrightarrow>
   trace s' = trace s @
     [EvExecute \<lparr>run_device_ordinal = device_ordinal env, requires_exclusive_lock_on_gpu = True\<rparr>
        executable arguments]"
  by (auto simp: Execute_def Let_def dest!: call_effect)

lemma Execute_world:
  "Execute env executable arguments s = (r, s') \<Longrightarrow>
   executable_cache s' = executable_cache s \<and>
   (r, world s') = ExecuteAsyncOnStreamWrapper env
      \<lparr>run_device_ordinal = device_ordinal env, requires_exclusive_lock_on_gpu = True\<rparr>
      executable arguments (world s)"
  by (auto simp: Execute_def Let_def dest!: call_effect)

lemma Memcpy_trace: "trace (Memcpy env dst src n s) = trace s @ [EvThenMemcpy dst src n]"
  by (simp add: Memcpy_def)

lemma filter_memcpy_compile:
  "list_all is_compile_event pre \<Longrightarrow> filter is_memcpy pre = []"
proof (induction pre)
  case Nil
  then show ?case by simp
next
  case (Cons ev pre)
  then show ?case by (cases ev) auto
qed

text \<open>
  C4. A call of \<open>GenerateAndProfileExecutable\<close> that returns a duration has, after the
  compile path, run the executable that \<open>Compile\<close> returned twice, on the inputs bound
  from the caller's buffers and with the exclusive-lock flag set. The outside state is
  threaded through the steps in this order: the warmup execution acts on the state
  \<open>Compile\<close> left, the host-blocking drain on the state after the warmup, the creation of
  the device timer on the state after the drain, the timed execution on the state after
  the timer was created, and the timer that was created is read on the state after the
  timed execution; the duration returned is the one read. The last action copies the
  root buffer of the timed execution's result into the caller's output buffer. The
  record of calls shows exactly these six calls after those of the compile path.
\<close>

theorem GenerateAndProfileExecutable_order:
  assumes "GenerateAndProfileExecutable ser env computation a f input_buffers output_buffer
             extractor s = (Inr (Some d), s')"
  shows "\<exists>pre opts executable s1 inputs warmup_output w2 u w3 timer w4 execution_output w5
            w6 src.
           Compile ser env computation a f extractor s = (Inr (Some executable), s1) \<and>
           trace s1 = trace s @ pre \<and>
           list_all is_compile_event pre \<and>
           opts = \<lparr>run_device_ordinal = device_ordinal env,
                    requires_exclusive_lock_on_gpu = True\<rparr> \<and>
           requires_exclusive_lock_on_gpu opts \<and>
           ExecutionInputsFromBuffers executable input_buffers = Inr inputs \<and>
           ExecuteAsyncOnStreamWrapper env opts executable inputs (world s1) =
             (Inr warmup_output, w2) \<and>
           BlockHostUntilDone env w2 = (Inr u, w3) \<and>
           GpuTimer_Create env w3 = (Inr timer, w4) \<and>
           ExecuteAsyncOnStreamWrapper env opts executable inputs w4 =
             (Inr execution_output, w5) \<and>
           GetElapsedDuration env timer w5 = (Inr d, w6) \<and>
           src = root_buffer (ConsumeResult execution_output) \<and>
           size_bytes src = size_bytes output_buffer \<and>
           world s' = ThenMemcpy env output_buffer src (size_bytes src) w6 \<and>
           executable_cache s' = executable_cache s1 \<and>
           trace s' = trace s @ pre @
             [EvExecute opts executable inputs,
              EvBlockHostUntilDone,
              EvGpuTimerCreate,
              EvExecute opts executable inputs,
              EvGetElapsedDuration timer,
              EvThenMemcpy output_buffer src (size_bytes src)]"
proof -
  let ?opts = "\<lparr>run_device_ordinal = device_ordinal env,
                 requires_exclusive_lock_on_gpu = True\<rparr>"
  obtain rc s1 where c: "Compile ser env computation a f extractor s = (rc, s1)"
    by (cases "Compile ser env computation a f extractor s") auto
  from assms c obtain executable where rc: "rc = Inr (Some executable)"
    by (auto simp: GenerateAndProfileExecutable_def split: sum.splits option.splits)
  from Compile_effect [OF c] obtain pre
    where t1: "trace s1 = trace s @ pre" and pre: "list_all is_compile_event pre"
    by blast
  from assms c rc obtain inputs
    where b: "ExecutionInputsFromBuffers executable input_buffers = Inr inputs"
    by (auto simp: GenerateAndProfileExecutable_def split: sum.splits)
  obtain r2 s2 where e1: "Execute env executable inputs s1 = (r2, s2)"
    by (cases "Execute env executable inputs s1") auto
  from assms c rc b e1 obtain warmup_output where r2: "r2 = Inr warmup_output"
    by (auto simp: GenerateAndProfileExecutable_def split: sum.splits)
  obtain r3 s3 where d3: "call EvBlockHostUntilDone (BlockHostUntilDone env) s2 = (r3, s3)"
    by (cases "call EvBlockHostUntilDone (BlockHostUntilDone env) s2") auto
  from assms c rc b e1 r2 d3 obtain u where r3: "r3 = Inr u"
    by (auto simp: GenerateAndProfileExecutable_def split: sum.splits)
  obtain r4 s4 where d4: "call EvGpuTimerCreate (GpuTimer_Create env) s3 = (r4, s4)"
    by (cases "call EvGpuTimerCreate (GpuTimer_Create env) s3") auto
  from assms c rc b e1 r2 d3 r3 d4 obtain timer where r4: "r4 = Inr timer"
    by (auto simp: GenerateAndProfileExecutable_def split: sum.splits)
  obtain r5 s5 where e5: "Execute env executable inputs s4 = (r5, s5)"
    by (cases "Execute env executable inputs s4") auto
  from assms c rc b e1 r2 d3 r3 d4 r4 e5 obtain execution_output
    where r5: "r5 = Inr execution_output"
    by (auto simp: GenerateAndProfileExecutable_def split: sum.splits)
  obtain r6 s6 where d6:
    "call (EvGetElapsedDuration timer) (GetElapsedDuration env timer) s5 = (r6, s6)"
    by (cases "call (EvGetElapsedDuration timer) (GetElapsedDuration env timer) s5") auto
  from assms c rc b e1 r2 d3 r3 d4 r4 e5 r5 d6 obtain d' where r6: "r6 = Inr d'"
    by (auto simp: GenerateAndProfileExecutable_def split: sum.splits)
  let ?src = "root_buffer (ConsumeResult execution_output)"
  from assms c rc b e1 r2 d3 r3 d4 r4 e5 r5 d6 r6
  have fin: "size_bytes ?src = size_bytes output_buffer \<and> d' = d \<and>
      s' = Memcpy env output_buffer ?src (size_bytes ?src) s6"
    by (auto simp: GenerateAndProfileExecutable_def Let_def split: if_splits)
  note x1 = Execute_world [OF e1 [unfolded r2]] Execute_effect [OF e1]
  note x3 = call_effect [OF d3 [unfolded r3]]
  note x4 = call_effect [OF d4 [unfolded r4]]
  note x5 = Execute_world [OF e5 [unfolded r5]] Execute_effect [OF e5]
  note x6 = call_effect [OF d6 [unfolded r6]]
  have w1: "ExecuteAsyncOnStreamWrapper env ?opts executable inputs (world s1) =
      (Inr warmup_output, world s2)"
    using x1 by simp
  have w3: "BlockHostUntilDone env (world s2) = (Inr u, world s3)" using x3 by simp
  have w4: "GpuTimer_Create env (world s3) = (Inr timer, world s4)" using x4 by simp
  have w5: "ExecuteAsyncOnStreamWrapper env ?opts executable inputs (world s4) =
      (Inr execution_output, world s5)"
    using x5 by simp
  have w6: "GetElapsedDuration env timer (world s5) = (Inr d, world s6)"
    using x6 fin by simp
  have wf: "world s' = ThenMemcpy env output_buffer ?src (size_bytes ?src) (world s6)"
    using fin by (simp add: Memcpy_def)
  have cf: "executable_cache s' = executable_cache s1"
    using fin x1 x3 x4 x5 x6 by (simp add: Memcpy_def)
  have tf: "trace s' = trace s @ pre @
             [EvExecute ?opts executable inputs,
              EvBlockHostUntilDone,
              EvGpuTimerCreate,
              EvExecute ?opts executable inputs,
              EvGetElapsedDuration timer,
              EvThenMemcpy output_buffer ?src (size_bytes ?src)]"
    using fin t1 x1 x3 x4 x5 x6 by (simp add: Memcpy_def)
  from c [unfolded rc] t1 pre b w1 w3 w4 w5 w6 fin wf cf tf
  show ?thesis by fastforce
qed


theorem GenerateAndProfileExecutable_order_witness:
  "\<exists>pre opts executable s1 inputs warmup_output w2 u w3 timer w4 execution_output w5 w6 src.
      Compile id demo_env demo_computation ''c1'' (7::nat) (demo_extractor ''identity'')
        demo_state = (Inr (Some executable), s1) \<and>
      trace s1 = trace demo_state @ pre \<and>
      list_all is_compile_event pre \<and>
      opts = \<lparr>run_device_ordinal = device_ordinal demo_env,
               requires_exclusive_lock_on_gpu = True\<rparr> \<and>
      requires_exclusive_lock_on_gpu opts \<and>
      ExecutionInputsFromBuffers executable [\<lparr>opaque = 64, size_bytes = 4\<rparr>] = Inr inputs \<and>
      ExecuteAsyncOnStreamWrapper demo_env opts executable inputs (world s1) =
        (Inr warmup_output, w2) \<and>
      BlockHostUntilDone demo_env w2 = (Inr u, w3) \<and>
      GpuTimer_Create demo_env w3 = (Inr timer, w4) \<and>
      ExecuteAsyncOnStreamWrapper demo_env opts executable inputs w4 =
        (Inr execution_output, w5) \<and>
      GetElapsedDuration demo_env timer w5 = (Inr 2, w6) \<and>
      src = root_buffer (ConsumeResult execution_output) \<and>
      size_bytes src = size_bytes \<lparr>opaque = 128, size_bytes = 4\<rparr> \<and>
      world (snd (GenerateAndProfileExecutable id demo_env demo_computation ''c1'' (7::nat)
          [\<lparr>opaque = 64, size_bytes = 4\<rparr>] \<lparr>opaque = 128, size_bytes = 4\<rparr>
          (demo_extractor ''identity'') demo_state)) =
        ThenMemcpy demo_env \<lparr>opaque = 128, size_bytes = 4\<rparr> src (size_bytes src) w6 \<and>
      executable_cache (snd (GenerateAndProfileExecutable id demo_env demo_computation ''c1''
          (7::nat) [\<lparr>opaque = 64, size_bytes = 4\<rparr>] \<lparr>opaque = 128, size_bytes = 4\<rparr>
          (demo_extractor ''identity'') demo_state)) = executable_cache s1 \<and>
      trace (snd (GenerateAndProfileExecutable id demo_env demo_computation ''c1'' (7::nat)
          [\<lparr>opaque = 64, size_bytes = 4\<rparr>] \<lparr>opaque = 128, size_bytes = 4\<rparr>
          (demo_extractor ''identity'') demo_state)) =
        trace demo_state @ pre @
          [EvExecute opts executable inputs,
           EvBlockHostUntilDone,
           EvGpuTimerCreate,
           EvExecute opts executable inputs,
           EvGetElapsedDuration timer,
           EvThenMemcpy \<lparr>opaque = 128, size_bytes = 4\<rparr> src (size_bytes src)]"
proof -
  have run: "GenerateAndProfileExecutable id demo_env demo_computation ''c1'' (7::nat)
          [\<lparr>opaque = 64, size_bytes = 4\<rparr>] \<lparr>opaque = 128, size_bytes = 4\<rparr>
          (demo_extractor ''identity'') demo_state =
        (Inr (Some 2),
         snd (GenerateAndProfileExecutable id demo_env demo_computation ''c1'' (7::nat)
          [\<lparr>opaque = 64, size_bytes = 4\<rparr>] \<lparr>opaque = 128, size_bytes = 4\<rparr>
          (demo_extractor ''identity'') demo_state))"
    by (simp add: profile_defs model_defs demo_defs)
  show ?thesis by (rule GenerateAndProfileExecutable_order [OF run])
qed

text \<open>
  C5. When \<open>Compile\<close> yields the null executable, \<open>GenerateAndProfileExecutable\<close> returns
  the empty optional, not a status, in the state \<open>Compile\<close> left: beyond the calls of the
  compile path it executes nothing, times nothing and copies nothing.
\<close>

theorem GenerateAndProfileExecutable_no_artifact:
  assumes "Compile ser env computation a f extractor s = (Inr None, s1)"
  shows "GenerateAndProfileExecutable ser env computation a f input_buffers output_buffer
           extractor s = (Inr None, s1) \<and>
         (\<exists>pre. trace s1 = trace s @ pre \<and> list_all is_compile_event pre)"
  using assms Compile_effect [OF assms]
  by (simp add: GenerateAndProfileExecutable_def)

theorem GenerateAndProfileExecutable_no_artifact_witness:
  "GenerateAndProfileExecutable id demo_env demo_computation ''c1'' (7::nat)
      [\<lparr>opaque = 64, size_bytes = 4\<rparr>] \<lparr>opaque = 128, size_bytes = 4\<rparr>
      (demo_extractor ''big'') demo_state =
    (Inr None,
     snd (Compile id demo_env demo_computation ''c1'' (7::nat) (demo_extractor ''big'') demo_state)) \<and>
   GenerateAndProfileExecutable id demo_env demo_computation ''c1'' (7::nat)
      [\<lparr>opaque = 64, size_bytes = 4\<rparr>] \<lparr>opaque = 128, size_bytes = 4\<rparr>
      (failing_extractor (demo_status kInvalidArgument [(kUncompilableFusion, ''split_k'')]))
      demo_state =
    (Inr None,
     \<lparr>executable_cache = [(\<lparr>autotune_key = 7, res = ''c1''\<rparr>, None)],
      trace = [EvExtractModule], world = 1\<rparr>)"
proof -
  let ?st = "demo_status kInvalidArgument [(kUncompilableFusion, ''split_k'')]"
  have oom: "Compile id demo_env demo_computation ''c1'' (7::nat) (demo_extractor ''big'')
       demo_state =
     (Inr None, snd (Compile id demo_env demo_computation ''c1'' (7::nat)
                      (demo_extractor ''big'') demo_state))"
    by (simp add: model_defs demo_defs)
  have unc: "Compile id demo_env demo_computation ''c1'' (7::nat) (failing_extractor ?st)
       demo_state =
     (Inr None, \<lparr>executable_cache = [(\<lparr>autotune_key = 7, res = ''c1''\<rparr>, None)],
        trace = [EvExtractModule], world = 1\<rparr>)"
    by (simp add: model_defs demo_defs)
  from GenerateAndProfileExecutable_no_artifact [OF oom]
       GenerateAndProfileExecutable_no_artifact [OF unc]
  show ?thesis by blast
qed

text \<open>
  C6. Suppose compilation, both executions, the drain, the timer creation and the timer
  read all succeed. If the size of the root buffer of the timed execution's result
  differs from the size of the caller's output buffer, the call fails with a status in
  the state reached after the timer read, in which no copy has been recorded. If the
  sizes are equal, the call returns the duration read from the timer, and its last
  action is the copy of the whole root buffer into the caller's output buffer.
\<close>

theorem GenerateAndProfileExecutable_size_check:
  assumes "Compile ser env computation a f extractor s = (Inr (Some executable), s1)"
    and "ExecutionInputsFromBuffers executable input_buffers = Inr inputs"
    and "Execute env executable inputs s1 = (Inr warmup_output, s2)"
    and "call EvBlockHostUntilDone (BlockHostUntilDone env) s2 = (Inr u, s3)"
    and "call EvGpuTimerCreate (GpuTimer_Create env) s3 = (Inr timer, s4)"
    and "Execute env executable inputs s4 = (Inr execution_output, s5)"
    and "call (EvGetElapsedDuration timer) (GetElapsedDuration env timer) s5 = (Inr d, s6)"
  shows "(size_bytes (root_buffer (ConsumeResult execution_output)) \<noteq> size_bytes output_buffer \<longrightarrow>
            (\<exists>st. GenerateAndProfileExecutable ser env computation a f input_buffers
                    output_buffer extractor s = (Inl (Failed st), s6)) \<and>
            filter is_memcpy (trace s6) = filter is_memcpy (trace s)) \<and>
         (size_bytes (root_buffer (ConsumeResult execution_output)) = size_bytes output_buffer \<longrightarrow>
            GenerateAndProfileExecutable ser env computation a f input_buffers
               output_buffer extractor s =
              (Inr (Some d),
               s6\<lparr>trace := trace s6 @
                      [EvThenMemcpy output_buffer (root_buffer (ConsumeResult execution_output))
                         (size_bytes (root_buffer (ConsumeResult execution_output)))],
                  world := ThenMemcpy env output_buffer
                      (root_buffer (ConsumeResult execution_output))
                      (size_bytes (root_buffer (ConsumeResult execution_output))) (world s6)\<rparr>))"
proof -
  from Compile_effect [OF assms(1)] obtain pre
    where t1: "trace s1 = trace s @ pre" and pre: "list_all is_compile_event pre"
    by blast
  have "filter is_memcpy (trace s6) = filter is_memcpy (trace s)"
    using t1 filter_memcpy_compile [OF pre]
      Execute_effect [OF assms(3)] call_effect [OF assms(4)] call_effect [OF assms(5)]
      Execute_effect [OF assms(6)] call_effect [OF assms(7)]
    by simp
  then show ?thesis
    using assms by (simp add: GenerateAndProfileExecutable_def Let_def Memcpy_def)
qed

theorem GenerateAndProfileExecutable_size_check_witness:
  "(\<exists>st. fst (GenerateAndProfileExecutable id demo_env demo_computation ''c1'' (7::nat)
        [\<lparr>opaque = 64, size_bytes = 4\<rparr>] \<lparr>opaque = 128, size_bytes = 8\<rparr>
        (demo_extractor ''identity'') demo_state) = Inl (Failed st)) \<and>
   filter is_memcpy (trace (snd (GenerateAndProfileExecutable id demo_env demo_computation
        ''c1'' (7::nat) [\<lparr>opaque = 64, size_bytes = 4\<rparr>] \<lparr>opaque = 128, size_bytes = 8\<rparr>
        (demo_extractor ''identity'') demo_state))) = [] \<and>
   fst (GenerateAndProfileExecutable id demo_env demo_computation ''c1'' (7::nat)
        [\<lparr>opaque = 64, size_bytes = 4\<rparr>] \<lparr>opaque = 128, size_bytes = 4\<rparr>
        (demo_extractor ''identity'') demo_state) = Inr (Some 2) \<and>
   filter is_memcpy (trace (snd (GenerateAndProfileExecutable id demo_env demo_computation
        ''c1'' (7::nat) [\<lparr>opaque = 64, size_bytes = 4\<rparr>] \<lparr>opaque = 128, size_bytes = 4\<rparr>
        (demo_extractor ''identity'') demo_state))) =
     [EvThenMemcpy \<lparr>opaque = 128, size_bytes = 4\<rparr> \<lparr>opaque = 4096, size_bytes = 4\<rparr> 4]"
proof -
  let ?exe = "demo_executable ''identity''"
  let ?in = "[\<lparr>opaque = 64, size_bytes = (4::nat)\<rparr>]"
  let ?inputs = "[\<lparr>input_shape = ''u8[4]'', unowned_buffer = \<lparr>opaque = 64, size_bytes = 4\<rparr>\<rparr>]"
  let ?out = "\<lparr>ConsumeResult = \<lparr>root_buffer = \<lparr>opaque = 4096, size_bytes = 4\<rparr>\<rparr>\<rparr>"
  let ?s1 = "snd (Compile id demo_env demo_computation ''c1'' (7::nat)
                (demo_extractor ''identity'') demo_state)"
  let ?s2 = "snd (Execute demo_env ?exe ?inputs ?s1)"
  let ?s3 = "snd (call EvBlockHostUntilDone (BlockHostUntilDone demo_env) ?s2)"
  let ?s4 = "snd (call EvGpuTimerCreate (GpuTimer_Create demo_env) ?s3)"
  let ?s5 = "snd (Execute demo_env ?exe ?inputs ?s4)"
  let ?s6 = "snd (call (EvGetElapsedDuration 4) (GetElapsedDuration demo_env 4) ?s5)"
  have h1: "Compile id demo_env demo_computation ''c1'' (7::nat)
       (demo_extractor ''identity'') demo_state = (Inr (Some ?exe), ?s1)"
    by (simp add: model_defs demo_defs)
  have h2: "ExecutionInputsFromBuffers ?exe ?in = Inr ?inputs"
    by (simp add: profile_defs model_defs demo_defs)
  have h3: "Execute demo_env ?exe ?inputs ?s1 = (Inr ?out, ?s2)"
    by (simp add: model_defs demo_defs)
  have h4: "call EvBlockHostUntilDone (BlockHostUntilDone demo_env) ?s2 = (Inr (), ?s3)"
    by (simp add: model_defs demo_defs)
  have h5: "call EvGpuTimerCreate (GpuTimer_Create demo_env) ?s3 = (Inr 4, ?s4)"
    by (simp add: model_defs demo_defs)
  have h6: "Execute demo_env ?exe ?inputs ?s4 = (Inr ?out, ?s5)"
    by (simp add: model_defs demo_defs)
  have h7: "call (EvGetElapsedDuration 4) (GetElapsedDuration demo_env 4) ?s5 = (Inr 2, ?s6)"
    by (simp add: model_defs demo_defs)
  have t0: "trace demo_state = []" by (simp add: demo_state_def)
  have t6: "filter is_memcpy (trace ?s6) = []"
    by (simp add: model_defs demo_defs)
  note th = GenerateAndProfileExecutable_size_check [OF h1 h2 h3 h4 h5 h6 h7]
  from th [of "\<lparr>opaque = 128, size_bytes = 8\<rparr>"] t6
  have a: "(\<exists>st. GenerateAndProfileExecutable id demo_env demo_computation ''c1'' (7::nat)
        ?in \<lparr>opaque = 128, size_bytes = 8\<rparr> (demo_extractor ''identity'') demo_state =
        (Inl (Failed st), ?s6))"
    by simp
  from th [of "\<lparr>opaque = 128, size_bytes = 4\<rparr>"]
  have b: "GenerateAndProfileExecutable id demo_env demo_computation ''c1'' (7::nat)
        ?in \<lparr>opaque = 128, size_bytes = 4\<rparr> (demo_extractor ''identity'') demo_state =
        (Inr (Some 2), ?s6\<lparr>trace := trace ?s6 @
            [EvThenMemcpy \<lparr>opaque = 128, size_bytes = 4\<rparr> \<lparr>opaque = 4096, size_bytes = 4\<rparr> 4],
          world := ThenMemcpy demo_env \<lparr>opaque = 128, size_bytes = 4\<rparr>
             \<lparr>opaque = 4096, size_bytes = 4\<rparr> 4 (world ?s6)\<rparr>)"
    by simp
  from a obtain st where a': "GenerateAndProfileExecutable id demo_env demo_computation ''c1''
        (7::nat) ?in \<lparr>opaque = 128, size_bytes = 8\<rparr> (demo_extractor ''identity'') demo_state =
        (Inl (Failed st), ?s6)"
    by blast
  show ?thesis
    unfolding a' b using t6 by simp
qed

text \<open>
  C10. Whenever \<open>GenerateAndProfileExecutable\<close> ends in a failure, be it a status from any
  step or an abnormal end of the input binding, no copy has been issued during the call.
  A copy is issued only by a call that returns a duration, as its last action, into the
  caller's output buffer and from a source of the same size.
\<close>

theorem GenerateAndProfileExecutable_copy_only_on_success:
  assumes "GenerateAndProfileExecutable ser env computation a f input_buffers output_buffer
             extractor s = (r, s')"
  shows "(\<forall>e. r = Inl e \<longrightarrow> filter is_memcpy (trace s') = filter is_memcpy (trace s)) \<and>
         (filter is_memcpy (trace s') \<noteq> filter is_memcpy (trace s) \<longrightarrow>
            (\<exists>d tr src. r = Inr (Some d) \<and>
               trace s' = tr @ [EvThenMemcpy output_buffer src (size_bytes src)] \<and>
               filter is_memcpy tr = filter is_memcpy (trace s) \<and>
               size_bytes src = size_bytes output_buffer))"
  using assms
  unfolding GenerateAndProfileExecutable_def
  by (auto simp: Let_def Memcpy_trace filter_memcpy_compile
      split: prod.splits sum.splits option.splits if_splits
      dest!: Compile_effect Execute_effect call_effect)

theorem GenerateAndProfileExecutable_copy_only_on_success_witness:
  "filter is_memcpy (trace (snd (GenerateAndProfileExecutable id
        (demo_env\<lparr>BlockHostUntilDone := \<lambda>w. (Inl (demo_status kInternal []), w + 1)\<rparr>)
        demo_computation ''c1'' (7::nat)
        [\<lparr>opaque = 64, size_bytes = 4\<rparr>] \<lparr>opaque = 128, size_bytes = 4\<rparr>
        (demo_extractor ''identity'') demo_state))) = filter is_memcpy (trace demo_state) \<and>
   (\<exists>d tr src.
      GenerateAndProfileExecutable id demo_env demo_computation ''c1'' (7::nat)
        [\<lparr>opaque = 64, size_bytes = 4\<rparr>] \<lparr>opaque = 128, size_bytes = 4\<rparr>
        (demo_extractor ''identity'') demo_state =
        (Inr (Some d), snd (GenerateAndProfileExecutable id demo_env demo_computation ''c1''
           (7::nat) [\<lparr>opaque = 64, size_bytes = 4\<rparr>] \<lparr>opaque = 128, size_bytes = 4\<rparr>
           (demo_extractor ''identity'') demo_state)) \<and>
      trace (snd (GenerateAndProfileExecutable id demo_env demo_computation ''c1''
           (7::nat) [\<lparr>opaque = 64, size_bytes = 4\<rparr>] \<lparr>opaque = 128, size_bytes = 4\<rparr>
           (demo_extractor ''identity'') demo_state)) =
        tr @ [EvThenMemcpy \<lparr>opaque = 128, size_bytes = 4\<rparr> src (size_bytes src)] \<and>
      size_bytes src = 4)"
proof -
  let ?bad = "demo_env\<lparr>BlockHostUntilDone := \<lambda>w. (Inl (demo_status kInternal []), w + 1)\<rparr>"
  let ?in = "[\<lparr>opaque = 64, size_bytes = (4::nat)\<rparr>]"
  let ?ob = "\<lparr>opaque = 128, size_bytes = (4::nat)\<rparr>"
  let ?fail = "GenerateAndProfileExecutable id ?bad demo_computation ''c1'' (7::nat)
        ?in ?ob (demo_extractor ''identity'') demo_state"
  let ?good = "GenerateAndProfileExecutable id demo_env demo_computation ''c1'' (7::nat)
        ?in ?ob (demo_extractor ''identity'') demo_state"
  have f: "?fail = (Inl (Failed (demo_status kInternal [])), snd ?fail)"
    by (simp add: profile_defs model_defs demo_defs)
  have g: "?good = (fst ?good, snd ?good)" by simp
  have copied: "filter is_memcpy (trace (snd ?good)) \<noteq> filter is_memcpy (trace demo_state)"
    by (simp add: profile_defs model_defs demo_defs)
  from GenerateAndProfileExecutable_copy_only_on_success [OF f]
  have a: "filter is_memcpy (trace (snd ?fail)) = filter is_memcpy (trace demo_state)"
    by blast
  from GenerateAndProfileExecutable_copy_only_on_success [OF g] copied
  obtain d tr src where "fst ?good = Inr (Some d)"
    and "trace (snd ?good) = tr @ [EvThenMemcpy ?ob src (size_bytes src)]"
    and "size_bytes src = size_bytes ?ob"
    by blast
  with a g show ?thesis by (metis DeviceMemoryBase.select_convs(2) prod.collapse)
qed

end
